theory Spec2Isabelle
  imports Complex_Main
begin

section \<open>Shared data model of \<open>utils.py\<close>\<close>

text \<open>
  The exceptions the modelled code can raise. Every raise of the Python source (or of the
  tensor library it calls) is the \<open>Inl\<close> branch of a sum type.
\<close>

datatype error = TypeError | IndexError | RuntimeError

text \<open>
  The element type of a label tensor. \<open>len\<close>, iteration and the type test of
  \<open>map_to_outputs\<close> do not look at it, indexing does: see \<open>tensor_items\<close> below.
\<close>

datatype dtype = Int8 | Int16 | Int32 | Int64 | UInt8 | Bool

text \<open>
  A one-dimensional \<open>torch.Tensor\<close> of labels: its dtype and the integers it holds (0 and
  1 in a tensor of dtype \<open>bool\<close>). The labels of the spec are integers; a tensor of a
  floating-point dtype is not a value of this type.
\<close>

record tensor =
  dtype :: dtype
  entries :: "int list"

text \<open>
  The values the \<open>labels\<close> argument of \<open>map_to_outputs\<close> and \<open>_one_hot_encode\<close> can
  hold. The source dispatches on \<open>type(labels)\<close>, so the model keeps the Python type as
  the constructor: a plain \<open>int\<close>, a \<open>bool\<close> (whose type is not \<open>int\<close>), a
  one-dimensional \<open>torch.Tensor\<close>, a Python list of plain ints, a numpy integer, and
  \<open>None\<close>.
\<close>

datatype py_value =
    PyInt int
  | PyBool bool
  | Tensor tensor
  | PyList "int list"
  | NumpyInt int
  | PyNone

text \<open>
  Modelled from the spec: the reverse-index collaborator, whose class is not part of
  \<open>utils.py\<close>. The spec describes it as an optional reindexing of raw class labels
  into output indices, exposing a lookup-by-label operation that maps a batch of raw
  integer labels to the batch of their remapped integer indices. The per-label lookup is
  the field \<open>lookup\<close>. The spec does not say which integer dtype the returned batch has,
  so that is the collaborator's choice too, the field \<open>nodes_dtype\<close>; \<open>getNodes\<close>
  applies the lookup to every label of a batch.
\<close>

record reverse_index =
  lookup :: "int \<Rightarrow> int"
  nodes_dtype :: dtype

definition getNodes :: "reverse_index \<Rightarrow> tensor \<Rightarrow> tensor" where
  "getNodes r labels = \<lparr>dtype = nodes_dtype r, entries = map (lookup r) (entries labels)\<rparr>"

section \<open>\<open>map_to_outputs\<close>\<close>

text \<open>
  \<^verbatim>\<open>
  def map_to_outputs(labels, reverse_index):
      if reverse_index is None:
        return labels
      if type(labels) == int:
        return int(reverse_index.getNodes(torch.tensor([labels])))
      elif type(labels) == torch.Tensor:
          return reverse_index.getNodes(labels)
  \<close>
  A Python function that reaches its end without \<open>return\<close> returns \<open>None\<close>.
  \<open>torch.tensor([labels])\<close> of a Python int is a one-element tensor of dtype \<open>int64\<close>,
  and \<open>int(t)\<close> of a one-element tensor is its only element.
\<close>

fun map_to_outputs :: "py_value \<Rightarrow> reverse_index option \<Rightarrow> py_value" where
  "map_to_outputs labels None = labels"
| "map_to_outputs (PyInt l) (Some r) =
     PyInt (hd (entries (getNodes r \<lparr>dtype = Int64, entries = [l]\<rparr>)))"
| "map_to_outputs (Tensor ls) (Some r) = Tensor (getNodes r ls)"
| "map_to_outputs labels (Some r) = PyNone"

section \<open>\<open>_one_hot_encode\<close>\<close>

text \<open>
  A two-dimensional tensor is the list of its rows. \<open>torch.zeros(b, n)\<close> raises on a
  negative size.
\<close>

definition zeros :: "nat \<Rightarrow> int \<Rightarrow> error + ('a::zero) list list" where
  "zeros b n = (if n < 0 then Inl RuntimeError else Inr (replicate b (replicate (nat n) 0)))"

text \<open>
  How a value indexes a dimension of a tensor. A Python int, and a zero-dimensional
  tensor of dtype \<open>int8\<close>, \<open>int16\<close>, \<open>int32\<close> or \<open>int64\<close>, is a position. A
  zero-dimensional tensor of dtype \<open>uint8\<close> or \<open>bool\<close> is a mask: it selects the whole
  dimension when it is nonzero and nothing when it is zero.
\<close>

datatype index = Position int | Mask bool

text \<open>
  Iterating a one-dimensional tensor yields its entries as zero-dimensional tensors of the
  same dtype.
\<close>

definition tensor_items :: "tensor \<Rightarrow> index list" where
  "tensor_items t =
     (if dtype t = UInt8 \<or> dtype t = Bool
      then map (\<lambda>l. Mask (l \<noteq> 0)) (entries t)
      else map Position (entries t))"

text \<open>
  A position \<open>l\<close> in a dimension of size \<open>n\<close> is accepted when \<open>-n \<le> l < n\<close>; a
  negative one counts from the end.
\<close>

definition wrap_index :: "nat \<Rightarrow> int \<Rightarrow> nat" where
  "wrap_index n l = nat (if l < 0 then l + int n else l)"

text \<open>
  \<open>row[l] = v\<close> on a one-dimensional tensor of \<open>n\<close> entries. A position outside
  \<open>[-n, n)\<close> raises \<open>IndexError\<close>, and one inside sets one entry. A mask never raises:
  it sets every entry, or none.
\<close>

fun setitem1 :: "'a list \<Rightarrow> index \<Rightarrow> 'a \<Rightarrow> error + 'a list" where
  "setitem1 row (Position l) v =
     (let n = length row in
      if - int n \<le> l \<and> l < int n then Inr (row[wrap_index n l := v]) else Inl IndexError)"
| "setitem1 row (Mask b) v = Inr (if b then map (\<lambda>x. v) row else row)"

text \<open>
  \<open>t[i, l] = v\<close> on a two-dimensional tensor: the row index \<open>i\<close> selects a row, and
  \<open>l\<close> indexes into it. \<open>i\<close> comes from \<open>enumerate\<close> and is never negative; past the
  last row it raises \<open>IndexError\<close>.
\<close>

definition setitem2 :: "'a list list \<Rightarrow> nat \<Rightarrow> index \<Rightarrow> 'a \<Rightarrow> error + 'a list list" where
  "setitem2 t i l v =
     (if i < length t then
        (case setitem1 (t ! i) l v of
           Inl e \<Rightarrow> Inl e
         | Inr row \<Rightarrow> Inr (t[i := row]))
      else Inl IndexError)"

text \<open>\<open>len(labels)\<close>: defined on tensors and lists, a \<open>TypeError\<close> on the other values.\<close>

fun py_len :: "py_value \<Rightarrow> error + nat" where
  "py_len (Tensor ls) = Inr (length (entries ls))"
| "py_len (PyList ls) = Inr (length ls)"
| "py_len v = Inl TypeError"

text \<open>
  \<open>enumerate(labels)\<close> iterates a tensor or a list and raises \<open>TypeError\<close> otherwise.
  The items of a list of ints are positions.
\<close>

fun py_iter :: "py_value \<Rightarrow> error + index list" where
  "py_iter (Tensor ls) = Inr (tensor_items ls)"
| "py_iter (PyList ls) = Inr (map Position ls)"
| "py_iter v = Inl TypeError"

text \<open>
  The loop \<^verbatim>\<open>for i, l in enumerate(labels): enconded[i, l] = 1\<close>, started at row \<open>i\<close>.
  An exception ends it.
\<close>

fun encode_loop :: "('a::one) list list \<Rightarrow> nat \<Rightarrow> index list \<Rightarrow> error + 'a list list" where
  "encode_loop enconded i [] = Inr enconded"
| "encode_loop enconded i (l # ls) =
     (case setitem2 enconded i l 1 of
        Inl e \<Rightarrow> Inl e
      | Inr enconded' \<Rightarrow> encode_loop enconded' (Suc i) ls)"

text \<open>
  \<^verbatim>\<open>
  def _one_hot_encode(labels, n_classes, reverse_index, dtype=None, device='cuda'):
      batch_size = len(labels)
      enconded = torch.zeros(batch_size, n_classes, dtype=dtype, device=device)
      labels=map_to_outputs(labels, reverse_index)
      for i, l in enumerate(labels):
        enconded[i, l] = 1
      return enconded
  \<close>
  The element type of the result stands for \<open>dtype\<close>: any numeric type with a 0 and a 1.
  (An Isabelle name cannot start with an underscore.)
\<close>

definition one_hot_encode ::
  "py_value \<Rightarrow> int \<Rightarrow> reverse_index option \<Rightarrow> error + ('a::{zero,one}) list list" where
  "one_hot_encode labels n_classes reverse_index =
     (case py_len labels of
        Inl e \<Rightarrow> Inl e
      | Inr batch_size \<Rightarrow>
          (case zeros batch_size n_classes of
             Inl e \<Rightarrow> Inl e
           | Inr enconded \<Rightarrow>
               (case py_iter (map_to_outputs labels reverse_index) of
                  Inl e \<Rightarrow> Inl e
                | Inr mapped \<Rightarrow> encode_loop enconded 0 mapped)))"

section \<open>\<open>getHyperparams\<close>\<close>

text \<open>
  The values of the hyper-parameter dictionary: Python ints, float literals (kept as the
  decimal number the literal denotes), strings and lists of ints.
\<close>

datatype hp_value =
    HInt int
  | HFloat real
  | HStr string
  | HList "int list"

text \<open>
  \<^verbatim>\<open>
  def getHyperparams():
      dictHyperparams = {
          "LR": 2, "MOMENTUM": 0.9, "WEIGHT_DECAY": 1e-5, "NUM_EPOCHS": 70,
          "MILESTONES": [49, 63], "BATCH_SIZE": 128, "DEVICE": 'cuda', "GAMMA": 0.2,
          "SEED": 66, "LOG_FREQUENCY": 10, "NUM_CLASSES": 100 }
      return dictHyperparams
  \<close>
  A dict literal stores its items from left to right.
\<close>

definition getHyperparams :: "string \<rightharpoonup> hp_value" where
  "getHyperparams =
     [''LR'' \<mapsto> HInt 2,
      ''MOMENTUM'' \<mapsto> HFloat (9 / 10),
      ''WEIGHT_DECAY'' \<mapsto> HFloat (1 / 10 ^ 5),
      ''NUM_EPOCHS'' \<mapsto> HInt 70,
      ''MILESTONES'' \<mapsto> HList [49, 63],
      ''BATCH_SIZE'' \<mapsto> HInt 128,
      ''DEVICE'' \<mapsto> HStr ''cuda'',
      ''GAMMA'' \<mapsto> HFloat (2 / 10),
      ''SEED'' \<mapsto> HInt 66,
      ''LOG_FREQUENCY'' \<mapsto> HInt 10,
      ''NUM_CLASSES'' \<mapsto> HInt 100]"

section \<open>\<open>writeMetrics\<close>\<close>

text \<open>\<open>range(start, stop, step)\<close> for a positive step.\<close>

definition py_range :: "int \<Rightarrow> int \<Rightarrow> int \<Rightarrow> int list" where
  "py_range start stop step =
     map (\<lambda>k. start + int k * step) [0..<nat ((stop - start + step - 1) div step)]"

text \<open>\<open>xs[i]\<close> for an index that is never negative: \<open>IndexError\<close> past the end.\<close>

definition getitem :: "'a list \<Rightarrow> nat \<Rightarrow> error + 'a" where
  "getitem xs i = (if i < length xs then Inr (xs ! i) else Inl IndexError)"

text \<open>\<open>str(n)\<close> of a Python int.\<close>

fun str_nat :: "nat \<Rightarrow> string" where
  "str_nat n =
     (if n < 10 then [char_of (48 + n)]
      else str_nat (n div 10) @ [char_of (48 + n mod 10)])"

definition py_str :: "int \<Rightarrow> string" where
  "py_str i = (if i < 0 then CHR ''-'' # str_nat (nat (- i)) else str_nat (nat i))"

text \<open>
  A Python object as \<open>json.dump\<close> sees it. The encoder writes \<open>None\<close>, a \<open>bool\<close>,
  \<open>int\<close>, \<open>float\<close> or \<open>str\<close>, and a list, tuple or dict of such objects (instances of
  subclasses included); for an object of any other class, a tensor or a
  \<open>numpy.float32\<close> for instance, it raises \<open>TypeError\<close>. The type parameter is the value
  the object stands for.
\<close>

datatype 'a py_obj = JSONable 'a | NotJSONable 'a

fun is_JSONable :: "'a py_obj \<Rightarrow> bool" where
  "is_JSONable (JSONable x) = True"
| "is_JSONable (NotJSONable x) = False"

text \<open>
  The dictionary \<open>data\<close> that is dumped: two lists of dictionaries, each dictionary the
  list of its items. \<open>accuracies\<close> is a sequence of objects. \<open>confusionMatrixData\<close> is
  a two-dimensional array, the list of its rows, and \<open>row.tolist()\<close> is the list of the
  objects the row holds.
\<close>

record ('a, 'c) metrics =
  accuracies :: "(int \<times> 'a py_obj) list list"
  cm :: "(int \<times> 'c py_obj list) list list"

text \<open>
  \<^verbatim>\<open>
  i = 0
  for classes_seen in range(10, 110, 10):
    data['accuracies'].append({classes_seen : accuracies[i]})
    i += 1
  \<close>
\<close>

fun accuracies_loop ::
  "'a list \<Rightarrow> int list \<Rightarrow> nat \<Rightarrow> (int \<times> 'a) list list \<Rightarrow> error + (int \<times> 'a) list list" where
  "accuracies_loop accs [] i out = Inr out"
| "accuracies_loop accs (classes_seen # rest) i out =
     (case getitem accs i of
        Inl e \<Rightarrow> Inl e
      | Inr a \<Rightarrow> accuracies_loop accs rest (Suc i) (out @ [[(classes_seen, a)]]))"

text \<open>
  \<^verbatim>\<open>
  i = 0
  for class_num in range(0,len(confusionMatrixData)):
    data['cm'].append({class_num : confusionMatrixData[i].tolist()})
    i += 1
  \<close>
\<close>

fun cm_loop ::
  "'c list list \<Rightarrow> int list \<Rightarrow> nat \<Rightarrow> (int \<times> 'c list) list list \<Rightarrow>
   error + (int \<times> 'c list) list list" where
  "cm_loop cmd [] i out = Inr out"
| "cm_loop cmd (class_num # rest) i out =
     (case getitem cmd i of
        Inl e \<Rightarrow> Inl e
      | Inr row \<Rightarrow> cm_loop cmd rest (Suc i) (out @ [[(class_num, row)]]))"

text \<open>
  The first part of \<open>writeMetrics\<close>, up to the comment \<^verbatim>\<open># dump to file\<close>: the record
  \<open>data\<close> that the two loops build.
\<close>

definition metrics_data ::
  "'a py_obj list \<Rightarrow> 'c py_obj list list \<Rightarrow> error + ('a, 'c) metrics" where
  "metrics_data accs confusionMatrixData =
     (case accuracies_loop accs (py_range 10 110 10) 0 [] of
        Inl e \<Rightarrow> Inl e
      | Inr as \<Rightarrow>
          (case cm_loop confusionMatrixData
                  (py_range 0 (int (length confusionMatrixData)) 1) 0 [] of
             Inl e \<Rightarrow> Inl e
           | Inr cs \<Rightarrow> Inr \<lparr>accuracies = as, cm = cs\<rparr>))"

text \<open>
  \<open>json.dump(data, f)\<close> writes the text piece by piece and raises \<open>TypeError\<close> when it
  reaches an object it cannot encode. It succeeds when every value of the record can be
  encoded; the keys are ints, which it writes as strings.
\<close>

definition json_serializable :: "('a, 'c) metrics \<Rightarrow> bool" where
  "json_serializable data \<longleftrightarrow>
     list_all (list_all (\<lambda>(k, v). is_JSONable v)) (accuracies data) \<and>
     list_all (list_all (\<lambda>(k, row). list_all is_JSONable row)) (cm data)"

text \<open>
  What a file holds after \<open>writeMetrics\<close> opened it: the JSON text of a whole record, or
  the beginning of one, cut where the encoder raised.
\<close>

datatype 'm file_content = Complete 'm | Truncated

text \<open>
  \<^verbatim>\<open>
  def writeMetrics(method, seed, accuracies, confusionMatrixData):
    data = {}
    data['accuracies'] = []
    data['cm'] = []
    ... the two loops ...
    # dump to file
    aus = method + '_' + str(seed)
    filename = 'data_{}.json'.format(aus)
    with open(filename, 'w') as f:
      json.dump(data, f)
  \<close>
  The file system is a map from file names to what the files hold. The function returns
  nothing, so its result is the file system it leaves and the exception it raised, if
  any. An exception of a loop leaves the file system as it was; opening with \<open>'w'\<close>
  empties the file, so that an exception of \<open>json.dump\<close> leaves a truncated file.
\<close>

definition metrics_filename :: "string \<Rightarrow> int \<Rightarrow> string" where
  "metrics_filename method seed = ''data_'' @ (method @ ''_'' @ py_str seed) @ ''.json''"

definition writeMetrics ::
  "string \<Rightarrow> int \<Rightarrow> 'a py_obj list \<Rightarrow> 'c py_obj list list \<Rightarrow>
   (string \<rightharpoonup> ('a, 'c) metrics file_content) \<Rightarrow>
   (string \<rightharpoonup> ('a, 'c) metrics file_content) \<times> error option" where
  "writeMetrics method seed accs confusionMatrixData fs =
     (case metrics_data accs confusionMatrixData of
        Inl e \<Rightarrow> (fs, Some e)
      | Inr data \<Rightarrow>
          if json_serializable data
          then (fs(metrics_filename method seed \<mapsto> Complete data), None)
          else (fs(metrics_filename method seed \<mapsto> Truncated), Some TypeError))"

section \<open>\<open>joinSubsets\<close>\<close>

text \<open>
  \<open>torch.utils.data.Subset\<close>: a base dataset and the list of the indices it covers.
\<close>

record 'd Subset =
  dataset :: 'd
  indices :: "int list"

text \<open>
  \<^verbatim>\<open>
  def joinSubsets(dataset, subsets):
      indices = []
      for s in subsets:
          indices += s.indices
      return Subset(dataset, indices)
  \<close>
\<close>

fun joinSubsets_loop :: "int list \<Rightarrow> 'e Subset list \<Rightarrow> int list" where
  "joinSubsets_loop acc [] = acc"
| "joinSubsets_loop acc (s # subsets) = joinSubsets_loop (acc @ indices s) subsets"

definition joinSubsets :: "'d \<Rightarrow> 'e Subset list \<Rightarrow> 'd Subset" where
  "joinSubsets ds subsets = \<lparr>dataset = ds, indices = joinSubsets_loop [] subsets\<rparr>"

section \<open>Feature-distance loss\<close>


text \<open>
  The dtype of a feature tensor, as far as the library functions used here tell dtypes
  apart: the floating-point dtypes, and \<open>Integer\<close> for any integer or boolean dtype, whose
  entries are whole numbers. Complex tensors are not modelled.
\<close>

datatype fdtype = Float16 | BFloat16 | Float32 | Float64 | Integer














section \<open>\<open>CosineNormalizationLayer\<close>\<close>










section \<open>Results about \<open>map_to_outputs\<close>\<close>

text \<open>
  C6. Without a remapping collaborator, \<open>map_to_outputs\<close> returns its \<open>labels\<close>
  argument unchanged, whatever it is: a single integer, a batch of integers, or any
  other value.
\<close>

theorem map_to_outputs_None_identity: "map_to_outputs labels None = labels"
  by simp

text \<open>
  C10. With a remapping collaborator present, a \<open>labels\<close> argument that is neither a plain
  Python int nor a tensor (a list, a numpy integer, a bool, \<open>None\<close>) matches neither
  type test, and \<open>map_to_outputs\<close> returns \<open>None\<close>.
\<close>

theorem map_to_outputs_fallthrough:
  "(\<forall>l. labels \<noteq> PyInt l) \<Longrightarrow> (\<forall>ls. labels \<noteq> Tensor ls) \<Longrightarrow>
   map_to_outputs labels (Some r) = PyNone"
  by (cases labels) simp_all

theorem map_to_outputs_fallthrough_witness:
  "(\<forall>l. PyList [3, 1] \<noteq> PyInt l) \<and> (\<forall>ls. PyList [3, 1] \<noteq> Tensor ls) \<and>
   map_to_outputs (PyList [3, 1]) (Some \<lparr>lookup = (\<lambda>l. l + 1), nodes_dtype = Int64\<rparr>) = PyNone \<and>
   map_to_outputs (NumpyInt 7) (Some \<lparr>lookup = (\<lambda>l. l + 1), nodes_dtype = Int64\<rparr>) = PyNone"
  using map_to_outputs_fallthrough [of "PyList [3, 1]" "\<lparr>lookup = (\<lambda>l. l + 1), nodes_dtype = Int64\<rparr>"]
    map_to_outputs_fallthrough [of "NumpyInt 7" "\<lparr>lookup = (\<lambda>l. l + 1), nodes_dtype = Int64\<rparr>"]
  by simp


section \<open>Results about \<open>_one_hot_encode\<close>\<close>

lemma setitem1_Position:
  "- int (length row) \<le> l \<Longrightarrow> l < int (length row) \<Longrightarrow>
   setitem1 row (Position l) v = Inr (row[wrap_index (length row) l := v])"
  by simp

lemma setitem1_fail_iff:
  "isl (setitem1 row idx v) \<longleftrightarrow>
   (\<exists>l. idx = Position l \<and> (l < - int (length row) \<or> int (length row) \<le> l))"
  by (cases idx) (auto simp: Let_def)

lemma setitem1_length:
  "setitem1 row idx v = Inr row' \<Longrightarrow> length row' = length row"
  by (cases idx) (auto simp: Let_def split: if_splits)

lemma encode_loop_ok:
  "\<forall>k<length enc. length (enc ! k) = n \<Longrightarrow> i + length ms \<le> length enc \<Longrightarrow>
   \<forall>l. Position l \<in> set ms \<longrightarrow> - int n \<le> l \<and> l < int n \<Longrightarrow>
   \<exists>enc'. encode_loop enc i ms = Inr enc' \<and> length enc' = length enc \<and>
     (\<forall>k<length enc. enc' ! k =
        (if i \<le> k \<and> k < i + length ms then projr (setitem1 (enc ! k) (ms ! (k - i)) 1)
         else enc ! k))"
proof (induction ms arbitrary: enc i)
  case Nil
  then show ?case by auto
next
  case (Cons idx ms)
  have i: "i < length enc" using Cons.prems(2) by simp
  have ni: "length (enc ! i) = n" using Cons.prems(1) i by simp
  have "\<not> isl (setitem1 (enc ! i) idx 1)"
    using Cons.prems(3) ni by (auto simp: setitem1_fail_iff)
  then obtain r where r: "setitem1 (enc ! i) idx 1 = Inr r"
    by (cases "setitem1 (enc ! i) idx 1") auto
  have lr: "length r = n" using setitem1_length [OF r] ni by simp
  let ?e = "enc[i := r]"
  have s: "setitem2 enc i idx 1 = Inr ?e"
    using i r by (simp add: setitem2_def)
  have rows: "\<forall>k<length ?e. length (?e ! k) = n"
    using Cons.prems(1) lr i by (auto simp: nth_list_update)
  have "\<exists>enc'. encode_loop ?e (Suc i) ms = Inr enc' \<and> length enc' = length ?e \<and>
     (\<forall>k<length ?e. enc' ! k =
        (if Suc i \<le> k \<and> k < Suc i + length ms
         then projr (setitem1 (?e ! k) (ms ! (k - Suc i)) 1) else ?e ! k))"
    using Cons.prems rows by (intro Cons.IH) auto
  then obtain enc' where e: "encode_loop ?e (Suc i) ms = Inr enc'" "length enc' = length enc"
    and nth: "\<forall>k<length enc. enc' ! k =
        (if Suc i \<le> k \<and> k < Suc i + length ms
         then projr (setitem1 (?e ! k) (ms ! (k - Suc i)) 1) else ?e ! k)"
    by auto
  have "\<forall>k<length enc. enc' ! k =
        (if i \<le> k \<and> k < i + length (idx # ms)
         then projr (setitem1 (enc ! k) ((idx # ms) ! (k - i)) 1) else enc ! k)"
  proof (intro allI impI)
    fix k assume k: "k < length enc"
    show "enc' ! k =
        (if i \<le> k \<and> k < i + length (idx # ms)
         then projr (setitem1 (enc ! k) ((idx # ms) ! (k - i)) 1) else enc ! k)"
    proof (cases "k = i")
      case True
      then show ?thesis using nth k i r by simp
    next
      case False
      then show ?thesis using nth k i by (auto simp: nth_Cons')
    qed
  qed
  then show ?case using s e by auto
qed

lemma encode_loop_fail:
  "\<forall>k<length enc. length (enc ! k) = n \<Longrightarrow> i + length ms \<le> length enc \<Longrightarrow>
   \<exists>l. Position l \<in> set ms \<and> (l < - int n \<or> int n \<le> l) \<Longrightarrow>
   isl (encode_loop enc i ms)"
proof (induction ms arbitrary: enc i)
  case Nil
  then show ?case by simp
next
  case (Cons idx ms)
  have i: "i < length enc" using Cons.prems(2) by simp
  have ni: "length (enc ! i) = n" using Cons.prems(1) i by simp
  show ?case
  proof (cases "isl (setitem1 (enc ! i) idx 1)")
    case True
    then show ?thesis using i by (cases "setitem1 (enc ! i) idx 1") (auto simp: setitem2_def)
  next
    case False
    then obtain r where r: "setitem1 (enc ! i) idx 1 = Inr r"
      by (cases "setitem1 (enc ! i) idx 1") auto
    have lr: "length r = n" using setitem1_length [OF r] ni by simp
    let ?e = "enc[i := r]"
    have s: "setitem2 enc i idx 1 = Inr ?e"
      using i r by (simp add: setitem2_def)
    have rows: "\<forall>k<length ?e. length (?e ! k) = n"
      using Cons.prems(1) lr i by (auto simp: nth_list_update)
    have "\<exists>l. Position l \<in> set ms \<and> (l < - int n \<or> int n \<le> l)"
      using Cons.prems(3) False ni by (auto simp: setitem1_fail_iff)
    then have "isl (encode_loop ?e (Suc i) ms)"
      using Cons.prems(2) rows by (intro Cons.IH) auto
    then show ?thesis using s by simp
  qed
qed

lemma py_iter_mapped_len:
  "py_iter (map_to_outputs labels r) = Inr mapped \<Longrightarrow> py_len labels = Inr (length mapped)"
  by (cases r; cases labels) (auto simp: getNodes_def tensor_items_def)

lemma zeros_ok:
  "0 \<le> n \<Longrightarrow> zeros b n = Inr (replicate b (replicate (nat n) 0))"
  by (simp add: zeros_def)

lemma one_hot_encode_unfold:
  assumes "0 \<le> n_classes" and "py_iter (map_to_outputs labels reverse_index) = Inr mapped"
  shows "one_hot_encode labels n_classes reverse_index =
         encode_loop (replicate (length mapped) (replicate (nat n_classes) 0)) 0 mapped"
  using assms py_iter_mapped_len [OF assms(2)] by (simp add: one_hot_encode_def zeros_ok)

text \<open>What a successful run leaves in each row of the zero matrix.\<close>

lemma one_hot_encode_rows:
  assumes "0 \<le> n_classes" and "py_iter (map_to_outputs labels reverse_index) = Inr mapped"
    and "\<forall>l. Position l \<in> set mapped \<longrightarrow> - n_classes \<le> l \<and> l < n_classes"
  shows "\<exists>enc :: ('a::{zero,one}) list list.
           one_hot_encode labels n_classes reverse_index = Inr enc \<and>
           length enc = length mapped \<and>
           (\<forall>i<length mapped. enc ! i =
              projr (setitem1 (replicate (nat n_classes) 0) (mapped ! i) 1))"
proof -
  let ?n = "nat n_classes"
  let ?z = "replicate (length mapped) (replicate ?n (0::'a))"
  have rows: "\<forall>k<length ?z. length (?z ! k) = ?n" by simp
  have rng: "\<forall>l. Position l \<in> set mapped \<longrightarrow> - int ?n \<le> l \<and> l < int ?n"
    using assms(1,3) by auto
  have "\<exists>enc'. encode_loop ?z 0 mapped = Inr enc' \<and> length enc' = length ?z \<and>
     (\<forall>k<length ?z. enc' ! k =
        (if 0 \<le> k \<and> k < 0 + length mapped then projr (setitem1 (?z ! k) (mapped ! (k - 0)) 1)
         else ?z ! k))"
    using rows rng by (intro encode_loop_ok) auto
  then obtain enc where e: "encode_loop ?z 0 mapped = Inr enc" "length enc = length mapped"
    "\<forall>k<length mapped. enc ! k = projr (setitem1 (replicate ?n 0) (mapped ! k) 1)"
    by auto
  have u: "one_hot_encode labels n_classes reverse_index = encode_loop ?z 0 mapped"
    by (rule one_hot_encode_unfold [OF assms(1,2)])
  show ?thesis using u e by auto
qed

lemma one_hot_row_entry:
  assumes "- int n \<le> l" and "l < int n" and "j < n"
  shows "(replicate n (0::'a::{zero,one}))[wrap_index n l := 1] ! j =
         (if int j = (if l < 0 then int n + l else l) then 1 else 0)"
proof -
  have w: "wrap_index n l < n" using assms(1,2) by (auto simp: wrap_index_def)
  have "int j = (if l < 0 then int n + l else l) \<longleftrightarrow> j = wrap_index n l"
    using assms(1,2) by (auto simp: wrap_index_def)
  then show ?thesis using w assms(3) by (simp add: nth_list_update)
qed

lemma py_iter_positions:
  "py_iter (PyList ls) = Inr (map Position ls)"
  "dtype t \<noteq> UInt8 \<Longrightarrow> dtype t \<noteq> Bool \<Longrightarrow> py_iter (Tensor t) = Inr (map Position (entries t))"
  by (simp_all add: tensor_items_def)

lemma py_iter_masks:
  "dtype t = UInt8 \<or> dtype t = Bool \<Longrightarrow>
   py_iter (Tensor t) = Inr (map (\<lambda>l. Mask (l \<noteq> 0)) (entries t))"
  by (simp add: tensor_items_def)

text \<open>
  C2, as the code has it. Let the mapped labels, the items of what \<open>map_to_outputs\<close>
  returns, be positions \<open>ls\<close> (the items of a list of ints, or of a tensor whose dtype is
  neither \<open>uint8\<close> nor \<open>bool\<close>), every one of them in \<open>[0, n_classes)\<close>. Then
  \<open>_one_hot_encode\<close> returns a matrix with \<open>len(labels)\<close> rows of \<open>n_classes\<close> entries
  each, whose entry \<open>(i, j)\<close> is 1 when \<open>j\<close> is the mapped label of row \<open>i\<close> and 0
  otherwise. Without a remapping collaborator the mapped labels are the raw labels.
\<close>

theorem one_hot_encode_correct:
  assumes "0 \<le> n_classes"
    and "py_iter (map_to_outputs labels reverse_index) = Inr (map Position ls)"
    and "\<forall>l\<in>set ls. 0 \<le> l \<and> l < n_classes"
  shows "\<exists>enc :: ('a::{zero,one}) list list.
           one_hot_encode labels n_classes reverse_index = Inr enc \<and>
           py_len labels = Inr (length enc) \<and> length enc = length ls \<and>
           (\<forall>i<length enc. length (enc ! i) = nat n_classes \<and>
              (\<forall>j<nat n_classes. enc ! i ! j = (if int j = ls ! i then 1 else 0))) \<and>
           (reverse_index = None \<longrightarrow> py_iter labels = Inr (map Position ls))"
proof -
  let ?n = "nat n_classes"
  have rng: "\<forall>l. Position l \<in> set (map Position ls) \<longrightarrow> - n_classes \<le> l \<and> l < n_classes"
    using assms(3) by auto
  have "\<exists>enc :: 'a list list.
           one_hot_encode labels n_classes reverse_index = Inr enc \<and>
           length enc = length (map Position ls) \<and>
           (\<forall>i<length (map Position ls). enc ! i =
              projr (setitem1 (replicate (nat n_classes) 0) (map Position ls ! i) 1))"
    by (rule one_hot_encode_rows [OF assms(1,2) rng])
  then obtain enc :: "'a list list"
    where e: "one_hot_encode labels n_classes reverse_index = Inr enc"
      and len: "length enc = length ls"
      and nth: "\<forall>i<length ls. enc ! i =
              projr (setitem1 (replicate ?n 0) (Position (ls ! i)) 1)"
    by auto
  have ent: "\<forall>i<length enc. length (enc ! i) = ?n \<and>
              (\<forall>j<?n. enc ! i ! j = (if int j = ls ! i then 1 else 0))"
  proof (intro allI impI)
    fix i assume i: "i < length enc"
    have m: "0 \<le> ls ! i" "ls ! i < n_classes" using assms(3) i len by auto
    have r: "enc ! i = (replicate ?n 0)[wrap_index ?n (ls ! i) := 1]"
      using nth i len m by (simp add: Let_def)
    have "\<forall>j<?n. enc ! i ! j = (if int j = ls ! i then 1 else 0)"
    proof (intro allI impI)
      fix j assume j: "j < ?n"
      have "(replicate ?n (0::'a))[wrap_index ?n (ls ! i) := 1] ! j =
            (if int j = (if ls ! i < 0 then int ?n + ls ! i else ls ! i) then 1 else 0)"
        using m j by (intro one_hot_row_entry) auto
      then show "enc ! i ! j = (if int j = ls ! i then 1 else 0)"
        using r m by simp
    qed
    then show "length (enc ! i) = ?n \<and>
              (\<forall>j<?n. enc ! i ! j = (if int j = ls ! i then 1 else 0))"
      using r by simp
  qed
  have "py_len labels = Inr (length enc)"
    using py_iter_mapped_len [OF assms(2)] len by simp
  moreover have "reverse_index = None \<longrightarrow> py_iter labels = Inr (map Position ls)"
    using assms(2) by auto
  ultimately show ?thesis using e len ent by blast
qed

theorem one_hot_encode_correct_witness:
  "(0::int) \<le> 3 \<and>
   py_iter (map_to_outputs (Tensor \<lparr>dtype = Int64, entries = [5, 7]\<rparr>)
      (Some \<lparr>lookup = (\<lambda>l. l - 5), nodes_dtype = Int64\<rparr>)) = Inr (map Position [0, 2]) \<and>
   (\<exists>enc :: int list list.
      one_hot_encode (Tensor \<lparr>dtype = Int64, entries = [5, 7]\<rparr>) 3
        (Some \<lparr>lookup = (\<lambda>l. l - 5), nodes_dtype = Int64\<rparr>) = Inr enc \<and>
      py_len (Tensor \<lparr>dtype = Int64, entries = [5, 7]\<rparr>) = Inr (length enc) \<and>
      length (enc ! 0) = 3 \<and> length (enc ! 1) = 3 \<and>
      enc ! 0 ! 0 = 1 \<and> enc ! 0 ! 1 = 0 \<and> enc ! 0 ! 2 = 0 \<and>
      enc ! 1 ! 0 = 0 \<and> enc ! 1 ! 1 = 0 \<and> enc ! 1 ! 2 = 1)"
proof -
  let ?t = "Tensor \<lparr>dtype = Int64, entries = [5, 7]\<rparr>"
  let ?r = "Some \<lparr>lookup = (\<lambda>l. l - 5), nodes_dtype = Int64\<rparr>"
  have h1: "(0::int) \<le> 3" by simp
  have h2: "py_iter (map_to_outputs ?t ?r) = Inr (map Position [0, 2])"
    by (simp add: getNodes_def tensor_items_def)
  have h3: "\<forall>l\<in>set [0, 2 :: int]. 0 \<le> l \<and> l < 3" by simp
  from one_hot_encode_correct [OF h1 h2 h3, where ?'a = int]
  obtain enc :: "int list list" where
    e: "one_hot_encode ?t 3 ?r = Inr enc"
      "py_len ?t = Inr (length enc)"
      "\<forall>i<length enc. length (enc ! i) = nat 3 \<and>
         (\<forall>j<nat 3. enc ! i ! j = (if int j = [0, 2] ! i then 1 else 0))"
    by blast
  from e(2) have l: "length enc = 2" by simp
  have r0: "length (enc ! 0) = 3 \<and> (\<forall>j<3. enc ! 0 ! j = (if int j = 0 then 1 else 0))"
    using e(3) l by (auto dest!: spec [of _ 0])
  have r1: "length (enc ! 1) = 3 \<and> (\<forall>j<3. enc ! 1 ! j = (if int j = 2 then 1 else 0))"
    using e(3) l by (auto dest!: spec [of _ 1])
  have "enc ! 0 ! 0 = 1 \<and> enc ! 0 ! 1 = 0 \<and> enc ! 0 ! 2 = 0"
    using r0 by simp
  moreover have "enc ! 1 ! 0 = 0 \<and> enc ! 1 ! 1 = 0 \<and> enc ! 1 ! 2 = 1"
    using r1 by simp
  ultimately show ?thesis using h1 h2 e(1,2) r0 r1 by blast
qed

text \<open>
  C2 as stated, for every batch of labels, fails: the labels 0 and 2 of a tensor of dtype
  \<open>uint8\<close> lie in \<open>[0, 3)\<close>, but they index as masks, so that the first row stays zero
  and the second is set to 1 throughout.
\<close>

theorem one_hot_encode_uint8_counterexample:
  "map_to_outputs (Tensor \<lparr>dtype = UInt8, entries = [0, 2]\<rparr>) None =
     Tensor \<lparr>dtype = UInt8, entries = [0, 2]\<rparr> \<and>
   (0::int) \<le> 0 \<and> (0::int) < 3 \<and> (0::int) \<le> 2 \<and> (2::int) < 3 \<and>
   one_hot_encode (Tensor \<lparr>dtype = UInt8, entries = [0, 2]\<rparr>) 3 None =
     Inr [[0, 0, 0], [1, 1, 1 :: int]]"
  by (simp add: one_hot_encode_def zeros_def setitem2_def tensor_items_def eval_nat_numeral)

text \<open>
  C1, as the code has it. Let \<open>mapped\<close> be the items of what \<open>map_to_outputs\<close> returns
  for a batch of labels, and \<open>n_classes \<ge> 0\<close>. \<open>_one_hot_encode\<close> fails if and only if
  some item is a position outside \<open>[-n_classes, n_classes)\<close>. When it returns, row \<open>i\<close>
  of the matrix is as follows. For a position \<open>l\<close> it has a single 1, at column \<open>l\<close>
  when \<open>l \<ge> 0\<close> and at column \<open>n_classes + l\<close> when \<open>l < 0\<close>: the tensor library counts
  a negative column index from the end of the row. For a mask (an item of a tensor of
  dtype \<open>uint8\<close> or \<open>bool\<close>) it is 1 throughout when the item is nonzero and 0
  throughout when it is zero.
\<close>

theorem one_hot_encode_fails_iff:
  assumes "0 \<le> n_classes"
    and "py_iter (map_to_outputs labels reverse_index) = Inr mapped"
  shows "(isl (one_hot_encode labels n_classes reverse_index :: error + ('a::{zero,one}) list list) \<longleftrightarrow>
            (\<exists>l. Position l \<in> set mapped \<and> (l < - n_classes \<or> n_classes \<le> l))) \<and>
         (\<forall>enc :: 'a list list.
            one_hot_encode labels n_classes reverse_index = Inr enc \<longrightarrow>
            length enc = length mapped \<and>
            (\<forall>i<length mapped. length (enc ! i) = nat n_classes \<and>
               (\<forall>j<nat n_classes. enc ! i ! j =
                  (case mapped ! i of
                     Position l \<Rightarrow> if int j = (if l < 0 then n_classes + l else l) then 1 else 0
                   | Mask b \<Rightarrow> if b then 1 else 0))))"
proof (cases "\<exists>l. Position l \<in> set mapped \<and> (l < - n_classes \<or> n_classes \<le> l)")
  case True
  let ?n = "nat n_classes"
  let ?z = "replicate (length mapped) (replicate ?n (0::'a))"
  have rows: "\<forall>k<length ?z. length (?z ! k) = ?n" by simp
  have u: "one_hot_encode labels n_classes reverse_index = encode_loop ?z 0 mapped"
    by (rule one_hot_encode_unfold [OF assms])
  have "\<exists>l. Position l \<in> set mapped \<and> (l < - int ?n \<or> int ?n \<le> l)"
    using True assms(1) by auto
  then have "isl (encode_loop ?z 0 mapped)"
    using rows by (intro encode_loop_fail) auto
  then have f: "isl (one_hot_encode labels n_classes reverse_index :: error + 'a list list)"
    using u by simp
  then have "\<forall>enc :: 'a list list. one_hot_encode labels n_classes reverse_index \<noteq> Inr enc"
    by auto
  then show ?thesis using True f by simp
next
  case False
  let ?n = "nat n_classes"
  have rng: "\<forall>l. Position l \<in> set mapped \<longrightarrow> - n_classes \<le> l \<and> l < n_classes"
    using False by auto
  have "\<exists>enc :: 'a list list.
           one_hot_encode labels n_classes reverse_index = Inr enc \<and>
           length enc = length mapped \<and>
           (\<forall>i<length mapped. enc ! i =
              projr (setitem1 (replicate (nat n_classes) 0) (mapped ! i) 1))"
    by (rule one_hot_encode_rows [OF assms rng])
  then obtain enc :: "'a list list"
    where e: "one_hot_encode labels n_classes reverse_index = Inr enc"
      and len: "length enc = length mapped"
      and nth: "\<forall>i<length mapped. enc ! i = projr (setitem1 (replicate ?n 0) (mapped ! i) 1)"
    by auto
  have ent: "\<forall>i<length mapped. length (enc ! i) = ?n \<and>
               (\<forall>j<?n. enc ! i ! j =
                  (case mapped ! i of
                     Position l \<Rightarrow> if int j = (if l < 0 then n_classes + l else l) then 1 else 0
                   | Mask b \<Rightarrow> if b then 1 else 0))"
  proof (intro allI impI)
    fix i assume i: "i < length mapped"
    show "length (enc ! i) = ?n \<and>
               (\<forall>j<?n. enc ! i ! j =
                  (case mapped ! i of
                     Position l \<Rightarrow> if int j = (if l < 0 then n_classes + l else l) then 1 else 0
                   | Mask b \<Rightarrow> if b then 1 else 0))"
    proof (cases "mapped ! i")
      case (Position l)
      then have "Position l \<in> set mapped" using i nth_mem [of i mapped] by simp
      then have m: "- int ?n \<le> l" "l < int ?n" using rng assms(1) by auto
      have r: "enc ! i = (replicate ?n 0)[wrap_index ?n l := 1]"
        using nth i Position m by (simp add: Let_def)
      have "\<forall>j<?n. enc ! i ! j = (if int j = (if l < 0 then n_classes + l else l) then 1 else 0)"
      proof (intro allI impI)
        fix j assume j: "j < ?n"
        have "(replicate ?n (0::'a))[wrap_index ?n l := 1] ! j =
              (if int j = (if l < 0 then int ?n + l else l) then 1 else 0)"
          using m j by (intro one_hot_row_entry) auto
        then show "enc ! i ! j = (if int j = (if l < 0 then n_classes + l else l) then 1 else 0)"
          using r assms(1) by simp
      qed
      then show ?thesis using r Position by simp
    next
      case (Mask b)
      then have "enc ! i = (if b then map (\<lambda>x. 1) (replicate ?n (0::'a)) else replicate ?n 0)"
        using nth i by simp
      then show ?thesis using Mask by simp
    qed
  qed
  have "\<not> isl (one_hot_encode labels n_classes reverse_index :: error + 'a list list)"
    using e by simp
  then show ?thesis using False e len ent by simp
qed

theorem one_hot_encode_fails_iff_witness:
  "(0::int) \<le> 3 \<and>
   py_iter (map_to_outputs (Tensor \<lparr>dtype = Int64, entries = [- 1, 2]\<rparr>) None) =
     Inr [Position (- 1), Position 2] \<and>
   py_iter (map_to_outputs (Tensor \<lparr>dtype = Int64, entries = [1, - 4]\<rparr>) None) =
     Inr [Position 1, Position (- 4)] \<and>
   py_iter (map_to_outputs (Tensor \<lparr>dtype = UInt8, entries = [7, 0]\<rparr>) None) =
     Inr [Mask True, Mask False] \<and>
   one_hot_encode (Tensor \<lparr>dtype = Int64, entries = [- 1, 2]\<rparr>) 3 None =
     Inr [[0, 0, 1], [0, 0, 1 :: int]] \<and>
   isl (one_hot_encode (Tensor \<lparr>dtype = Int64, entries = [1, - 4]\<rparr>) 3 None ::
          error + int list list) \<and>
   one_hot_encode (Tensor \<lparr>dtype = UInt8, entries = [7, 0]\<rparr>) 3 None =
     Inr [[1, 1, 1], [0, 0, 0 :: int]]"
proof -
  have h1: "(0::int) \<le> 3" by simp
  have h2: "py_iter (map_to_outputs (Tensor \<lparr>dtype = Int64, entries = [- 1, 2]\<rparr>) None) =
     Inr [Position (- 1), Position 2]"
    by (simp add: tensor_items_def)
  have h3: "py_iter (map_to_outputs (Tensor \<lparr>dtype = Int64, entries = [1, - 4]\<rparr>) None) =
     Inr [Position 1, Position (- 4)]"
    by (simp add: tensor_items_def)
  have h4: "py_iter (map_to_outputs (Tensor \<lparr>dtype = UInt8, entries = [7, 0]\<rparr>) None) =
     Inr [Mask True, Mask False]"
    by (simp add: tensor_items_def)
  have a: "one_hot_encode (Tensor \<lparr>dtype = Int64, entries = [- 1, 2]\<rparr>) 3 None =
     Inr [[0, 0, 1], [0, 0, 1 :: int]]"
    by (simp add: one_hot_encode_def zeros_def setitem2_def tensor_items_def wrap_index_def
        eval_nat_numeral)
  have b: "one_hot_encode (Tensor \<lparr>dtype = UInt8, entries = [7, 0]\<rparr>) 3 None =
     Inr [[1, 1, 1], [0, 0, 0 :: int]]"
    by (simp add: one_hot_encode_def zeros_def setitem2_def tensor_items_def eval_nat_numeral)
  have c: "isl (one_hot_encode (Tensor \<lparr>dtype = Int64, entries = [1, - 4]\<rparr>) 3 None ::
          error + int list list)"
    using one_hot_encode_fails_iff [OF h1 h3, where ?'a = int] by auto
  show ?thesis using h1 h2 h3 h4 a b c by simp
qed

text \<open>
  C1 as stated fails. The mapped label \<open>-1\<close> is outside \<open>[0, 3)\<close>, yet the call returns
  and has set the last entry of the row. The mapped label 5 of a tensor of dtype \<open>uint8\<close>
  is outside \<open>[0, 3)\<close> too, yet the call returns and has set the whole row.
\<close>

theorem one_hot_encode_negative_label_counterexample:
  "map_to_outputs (Tensor \<lparr>dtype = Int64, entries = [- 1]\<rparr>) None =
     Tensor \<lparr>dtype = Int64, entries = [- 1]\<rparr> \<and>
   \<not> (0 \<le> (- 1 :: int) \<and> (- 1 :: int) < 3) \<and>
   one_hot_encode (Tensor \<lparr>dtype = Int64, entries = [- 1]\<rparr>) 3 None = Inr [[0, 0, 1 :: int]] \<and>
   map_to_outputs (Tensor \<lparr>dtype = UInt8, entries = [5]\<rparr>) None =
     Tensor \<lparr>dtype = UInt8, entries = [5]\<rparr> \<and>
   \<not> (0 \<le> (5 :: int) \<and> (5 :: int) < 3) \<and>
   one_hot_encode (Tensor \<lparr>dtype = UInt8, entries = [5]\<rparr>) 3 None = Inr [[1, 1, 1 :: int]]"
  by (simp add: one_hot_encode_def zeros_def setitem2_def tensor_items_def wrap_index_def
      eval_nat_numeral)


section \<open>Results about \<open>joinSubsets\<close>\<close>

lemma joinSubsets_loop_concat:
  "joinSubsets_loop acc subsets = acc @ concat (map indices subsets)"
  by (induction subsets arbitrary: acc) simp_all

lemma count_list_concat:
  "count_list (concat xss) x = (\<Sum>xs\<leftarrow>xss. count_list xs x)"
  by (induction xss) simp_all

text \<open>
  C7. The subset that \<open>joinSubsets\<close> returns is over the given base dataset, and its
  index list is the concatenation of the subsets' index lists in input order. Nothing is
  removed: its length is the sum of their lengths, and every index occurs in it as often
  as it occurs in all the subsets together.
\<close>

theorem joinSubsets_concat:
  "indices (joinSubsets ds subsets) = concat (map indices subsets) \<and>
   dataset (joinSubsets ds subsets) = ds \<and>
   length (indices (joinSubsets ds subsets)) = (\<Sum>s\<leftarrow>subsets. length (indices s)) \<and>
   (\<forall>x. count_list (indices (joinSubsets ds subsets)) x = (\<Sum>s\<leftarrow>subsets. count_list (indices s) x))"
  by (simp add: joinSubsets_def joinSubsets_loop_concat count_list_concat length_concat comp_def)

theorem joinSubsets_concat_witness:
  "indices (joinSubsets ''cifar''
      [\<lparr>dataset = ''cifar'', indices = [1, 2]\<rparr>, \<lparr>dataset = ''cifar'', indices = [3]\<rparr>,
       \<lparr>dataset = ''cifar'', indices = [2]\<rparr>]) = [1, 2, 3, 2]"
  using joinSubsets_concat [of "''cifar''"
      "[\<lparr>dataset = ''cifar'', indices = [1, 2]\<rparr>, \<lparr>dataset = ''cifar'', indices = [3]\<rparr>,
        \<lparr>dataset = ''cifar'', indices = [2]\<rparr>]"]
  by simp

section \<open>Results about \<open>writeMetrics\<close>\<close>

lemma py_range_10_110_10: "py_range 10 110 10 = [10, 20, 30, 40, 50, 60, 70, 80, 90, 100]"
  by code_simp

lemma py_range_rows: "py_range 0 (int n) 1 = map int [0..<n]"
  by (simp add: py_range_def)

lemma accuracies_loop_ok:
  "i + length ks \<le> length accs \<Longrightarrow>
   \<exists>res. accuracies_loop accs ks i out = Inr (out @ res) \<and> length res = length ks \<and>
     (\<forall>j<length ks. res ! j = [(ks ! j, accs ! (i + j))])"
proof (induction ks arbitrary: i out)
  case Nil
  then show ?case by simp
next
  case (Cons k ks)
  from Cons.prems have "Suc i + length ks \<le> length accs" by simp
  from Cons.IH [OF this, of "out @ [[(k, accs ! i)]]"]
  obtain res where r: "accuracies_loop accs ks (Suc i) (out @ [[(k, accs ! i)]]) =
      Inr ((out @ [[(k, accs ! i)]]) @ res)" "length res = length ks"
      "\<forall>j<length ks. res ! j = [(ks ! j, accs ! (Suc i + j))]"
    by blast
  let ?res = "[(k, accs ! i)] # res"
  have "accuracies_loop accs (k # ks) i out = Inr (out @ ?res)"
    using Cons.prems r(1) by (simp add: getitem_def)
  moreover have "length ?res = length (k # ks)" using r(2) by simp
  moreover have "\<forall>j<length (k # ks). ?res ! j = [((k # ks) ! j, accs ! (i + j))]"
  proof (intro allI impI)
    fix j assume "j < length (k # ks)"
    then show "?res ! j = [((k # ks) ! j, accs ! (i + j))]"
      using r(3) by (cases j) simp_all
  qed
  ultimately show ?case by blast
qed

lemma accuracies_loop_short:
  "i \<le> length accs \<Longrightarrow> length accs < i + length ks \<Longrightarrow>
   accuracies_loop accs ks i out = Inl IndexError"
proof (induction ks arbitrary: i out)
  case Nil
  then show ?case by simp
next
  case (Cons k ks)
  show ?case
  proof (cases "i < length accs")
    case True
    then show ?thesis using Cons.prems Cons.IH [of "Suc i"] by (simp add: getitem_def)
  next
    case False
    then show ?thesis by (simp add: getitem_def)
  qed
qed

lemma cm_loop_ok:
  "i + length ks \<le> length cmd \<Longrightarrow>
   \<exists>res. cm_loop cmd ks i out = Inr (out @ res) \<and> length res = length ks \<and>
     (\<forall>j<length ks. res ! j = [(ks ! j, cmd ! (i + j))])"
proof (induction ks arbitrary: i out)
  case Nil
  then show ?case by simp
next
  case (Cons k ks)
  from Cons.prems have "Suc i + length ks \<le> length cmd" by simp
  from Cons.IH [OF this, of "out @ [[(k, cmd ! i)]]"]
  obtain res where r: "cm_loop cmd ks (Suc i) (out @ [[(k, cmd ! i)]]) =
      Inr ((out @ [[(k, cmd ! i)]]) @ res)" "length res = length ks"
      "\<forall>j<length ks. res ! j = [(ks ! j, cmd ! (Suc i + j))]"
    by blast
  let ?res = "[(k, cmd ! i)] # res"
  have "cm_loop cmd (k # ks) i out = Inr (out @ ?res)"
    using Cons.prems r(1) by (simp add: getitem_def)
  moreover have "length ?res = length (k # ks)" using r(2) by simp
  moreover have "\<forall>j<length (k # ks). ?res ! j = [((k # ks) ! j, cmd ! (i + j))]"
  proof (intro allI impI)
    fix j assume "j < length (k # ks)"
    then show "?res ! j = [((k # ks) ! j, cmd ! (i + j))]"
      using r(3) by (cases j) simp_all
  qed
  ultimately show ?case by blast
qed

lemma metrics_data_ok:
  assumes "10 \<le> length accs"
  shows "\<exists>data. metrics_data accs confusionMatrixData = Inr data \<and>
           length (accuracies data) = 10 \<and>
           (\<forall>i<10. accuracies data ! i = [(10 * (int i + 1), accs ! i)]) \<and>
           length (cm data) = length confusionMatrixData \<and>
           (\<forall>j<length confusionMatrixData. cm data ! j = [(int j, confusionMatrixData ! j)])"
proof -
  let ?ks = "py_range 10 110 10"
  let ?rs = "py_range 0 (int (length confusionMatrixData)) 1"
  have lk: "length ?ks = 10" by (simp add: py_range_10_110_10)
  have nk: "\<forall>i<10. ?ks ! i = 10 * (int i + 1)"
    by (simp add: py_range_def)
  have lr: "length ?rs = length confusionMatrixData" by (simp add: py_range_rows)
  have nr: "\<forall>j<length confusionMatrixData. ?rs ! j = int j" by (simp add: py_range_rows)
  from accuracies_loop_ok [of 0 ?ks accs "[]"] assms lk
  obtain as where a: "accuracies_loop accs ?ks 0 [] = Inr as" "length as = 10"
      "\<forall>i<10. as ! i = [(?ks ! i, accs ! i)]"
    by auto
  from cm_loop_ok [of 0 ?rs confusionMatrixData "[]"] lr
  obtain cs where c: "cm_loop confusionMatrixData ?rs 0 [] = Inr cs"
      "length cs = length confusionMatrixData"
      "\<forall>j<length confusionMatrixData. cs ! j = [(?rs ! j, confusionMatrixData ! j)]"
    by auto
  have w: "metrics_data accs confusionMatrixData = Inr \<lparr>accuracies = as, cm = cs\<rparr>"
    unfolding metrics_data_def a(1) c(1) by simp
  have na: "\<forall>i<10. as ! i = [(10 * (int i + 1), accs ! i)]"
    using a(3) nk by simp
  have nc: "\<forall>j<length confusionMatrixData. cs ! j = [(int j, confusionMatrixData ! j)]"
    using c(3) nr by simp
  show ?thesis
    by (rule exI [of _ "\<lparr>accuracies = as, cm = cs\<rparr>"]) (use w a(2) na c(2) nc in simp)
qed

lemma metrics_data_short:
  "length accs < 10 \<Longrightarrow> metrics_data accs confusionMatrixData = Inl IndexError"
  using accuracies_loop_short [of 0 accs "py_range 10 110 10" "[]"]
  by (simp add: metrics_data_def py_range_10_110_10)

lemma json_serializable_iff:
  assumes "length (accuracies data) = 10"
    and "\<forall>i<10. accuracies data ! i = [(ks i, accs ! i)]" and "10 \<le> length accs"
    and "length (cm data) = length cmd" and "\<forall>j<length cmd. cm data ! j = [(rs j, cmd ! j)]"
  shows "json_serializable data \<longleftrightarrow>
         list_all is_JSONable (take 10 accs) \<and> list_all (list_all is_JSONable) cmd"
proof -
  have "list_all (list_all (\<lambda>(k, v). is_JSONable v)) (accuracies data) \<longleftrightarrow>
      (\<forall>i<10. is_JSONable (accs ! i))"
    using assms(1,2) by (simp add: list_all_length)
  moreover have "list_all is_JSONable (take 10 accs) \<longleftrightarrow> (\<forall>i<10. is_JSONable (accs ! i))"
    using assms(3) by (simp add: list_all_length)
  moreover have "list_all (list_all (\<lambda>(k, row). list_all is_JSONable row)) (cm data) \<longleftrightarrow>
      (\<forall>j<length cmd. list_all is_JSONable (cmd ! j))"
    using assms(4,5) by (simp add: list_all_length)
  moreover have "list_all (list_all is_JSONable) cmd \<longleftrightarrow>
      (\<forall>j<length cmd. list_all is_JSONable (cmd ! j))"
    by (simp add: list_all_length)
  ultimately show ?thesis by (simp add: json_serializable_def)
qed

text \<open>
  C8, as the code has it. When \<open>accuracies\<close> has at least 10 entries, the record that
  \<open>writeMetrics\<close> builds and hands to \<open>json.dump\<close> has exactly 10 \<open>accuracies\<close>
  entries, the \<open>i\<close>-th being the one-entry dictionary from \<open>10 * (i + 1)\<close> to
  \<open>accuracies[i]\<close>, and one \<open>cm\<close> entry per row of the confusion matrix, the \<open>j\<close>-th
  being the one-entry dictionary from \<open>j\<close> to the values of row \<open>j\<close>. Entries of
  \<open>accuracies\<close> past the tenth are ignored. The record is written whole under the file
  name when the first ten accuracies and all values of the confusion matrix are objects
  that \<open>json.dump\<close> encodes; otherwise \<open>json.dump\<close> raises \<open>TypeError\<close> and the file
  is left truncated.
\<close>

theorem writeMetrics_record:
  assumes "10 \<le> length accs"
  shows "\<exists>data. metrics_data accs confusionMatrixData = Inr data \<and>
           length (accuracies data) = 10 \<and>
           (\<forall>i<10. accuracies data ! i = [(10 * (int i + 1), accs ! i)]) \<and>
           length (cm data) = length confusionMatrixData \<and>
           (\<forall>j<length confusionMatrixData. cm data ! j = [(int j, confusionMatrixData ! j)]) \<and>
           (json_serializable data \<longleftrightarrow>
              list_all is_JSONable (take 10 accs) \<and>
              list_all (list_all is_JSONable) confusionMatrixData) \<and>
           writeMetrics method seed accs confusionMatrixData fs =
             (if json_serializable data
              then (fs(metrics_filename method seed \<mapsto> Complete data), None)
              else (fs(metrics_filename method seed \<mapsto> Truncated), Some TypeError))"
proof -
  from metrics_data_ok [OF assms, of confusionMatrixData]
  obtain data where d: "metrics_data accs confusionMatrixData = Inr data"
      "length (accuracies data) = 10"
      "\<forall>i<10. accuracies data ! i = [(10 * (int i + 1), accs ! i)]"
      "length (cm data) = length confusionMatrixData"
      "\<forall>j<length confusionMatrixData. cm data ! j = [(int j, confusionMatrixData ! j)]"
    by blast
  have j: "json_serializable data \<longleftrightarrow>
         list_all is_JSONable (take 10 accs) \<and>
         list_all (list_all is_JSONable) confusionMatrixData"
    by (rule json_serializable_iff [OF d(2) d(3) assms d(4) d(5)])
  have w: "writeMetrics method seed accs confusionMatrixData fs =
             (if json_serializable data
              then (fs(metrics_filename method seed \<mapsto> Complete data), None)
              else (fs(metrics_filename method seed \<mapsto> Truncated), Some TypeError))"
    by (simp add: writeMetrics_def d(1))
  show ?thesis using d j w by blast
qed

theorem writeMetrics_record_witness:
  "(10::nat) \<le> length (map JSONable [1, 2, 3, 4, 5, 6, 7, 8, 9, 10 :: int]) \<and>
   (\<exists>data.
      writeMetrics ''lwf'' 30 (map JSONable [1, 2, 3, 4, 5, 6, 7, 8, 9, 10 :: int])
        [[JSONable 1, JSONable 0], [JSONable 0, JSONable (1 :: int)]] Map.empty =
        ([''data_lwf_30.json'' \<mapsto> Complete data], None) \<and>
      length (accuracies data) = 10 \<and>
      accuracies data ! 0 = [(10, JSONable 1)] \<and> accuracies data ! 9 = [(100, JSONable 10)] \<and>
      length (cm data) = 2 \<and>
      cm data ! 0 = [(0, [JSONable 1, JSONable 0])] \<and>
      cm data ! 1 = [(1, [JSONable 0, JSONable 1])]) \<and>
   writeMetrics ''lwf'' 30 (NotJSONable 0 # map JSONable [1, 2, 3, 4, 5, 6, 7, 8, 9, 10 :: int])
     [[JSONable 1, JSONable 0], [JSONable 0, JSONable (1 :: int)]] Map.empty =
     ([''data_lwf_30.json'' \<mapsto> Truncated], Some TypeError)"
proof -
  let ?accs = "map JSONable [1, 2, 3, 4, 5, 6, 7, 8, 9, 10 :: int]"
  let ?cmd = "[[JSONable 1, JSONable 0], [JSONable 0, JSONable (1 :: int)]]"
  have h: "(10::nat) \<le> length ?accs" by simp
  have h': "(10::nat) \<le> length (NotJSONable 0 # ?accs)" by simp
  have f: "metrics_filename ''lwf'' 30 = ''data_lwf_30.json''"
    by code_simp
  from writeMetrics_record [OF h, of ?cmd "''lwf''" 30 Map.empty]
  obtain data where d: "length (accuracies data) = 10"
      "\<forall>i<10. accuracies data ! i = [(10 * (int i + 1), ?accs ! i)]"
      "length (cm data) = length ?cmd"
      "\<forall>j<length ?cmd. cm data ! j = [(int j, ?cmd ! j)]"
      "json_serializable data \<longleftrightarrow>
         list_all is_JSONable (take 10 ?accs) \<and> list_all (list_all is_JSONable) ?cmd"
      "writeMetrics ''lwf'' 30 ?accs ?cmd Map.empty =
         (if json_serializable data
          then (Map.empty(metrics_filename ''lwf'' 30 \<mapsto> Complete data), None)
          else (Map.empty(metrics_filename ''lwf'' 30 \<mapsto> Truncated), Some TypeError))"
    by blast
  have js: "json_serializable data" using d(5) by simp
  have w: "writeMetrics ''lwf'' 30 ?accs ?cmd Map.empty =
        ([''data_lwf_30.json'' \<mapsto> Complete data], None)"
    using d(6) js f by simp
  have a: "accuracies data ! 0 = [(10, JSONable 1)]" "accuracies data ! 9 = [(100, JSONable 10)]"
    using d(2) by simp_all
  have c: "cm data ! 0 = [(0, [JSONable 1, JSONable 0])]"
    "cm data ! 1 = [(1, [JSONable 0, JSONable 1])]"
    using d(4) by simp_all
  from writeMetrics_record [OF h', of ?cmd "''lwf''" 30 Map.empty]
  obtain data' where d': "json_serializable data' \<longleftrightarrow>
         list_all is_JSONable (take 10 (NotJSONable 0 # ?accs)) \<and>
         list_all (list_all is_JSONable) ?cmd"
      "writeMetrics ''lwf'' 30 (NotJSONable 0 # ?accs) ?cmd Map.empty =
         (if json_serializable data'
          then (Map.empty(metrics_filename ''lwf'' 30 \<mapsto> Complete data'), None)
          else (Map.empty(metrics_filename ''lwf'' 30 \<mapsto> Truncated), Some TypeError))"
    by blast
  have "\<not> json_serializable data'" using d'(1) by simp
  then have w': "writeMetrics ''lwf'' 30 (NotJSONable 0 # ?accs) ?cmd Map.empty =
        ([''data_lwf_30.json'' \<mapsto> Truncated], Some TypeError)"
    using d'(2) f by simp
  have l: "length (cm data) = 2" using d(3) by simp
  show ?thesis using h w d(1) a l c w' by blast
qed

text \<open>
  C8 as stated, for every accuracies sequence, fails: with fewer than 10 accuracies the
  first loop reads past the end, no record is built and nothing is written.
\<close>

theorem writeMetrics_short_counterexample:
  "metrics_data [JSONable (1 / 2), JSONable (1 / 4 :: real)]
     [[JSONable 1, JSONable 0], [JSONable 0, JSONable (1 :: int)]] = Inl IndexError \<and>
   writeMetrics ''lwf'' 30 [JSONable (1 / 2), JSONable (1 / 4 :: real)]
     [[JSONable 1, JSONable 0], [JSONable 0, JSONable (1 :: int)]] Map.empty =
     (Map.empty, Some IndexError)"
  by (simp add: writeMetrics_def metrics_data_short)

section \<open>Results about \<open>getHyperparams\<close>\<close>

text \<open>
  C9. \<open>getHyperparams\<close> is a constant: it takes no input and has one value, a dictionary
  with exactly the eleven keys below, each with the default of the source;
  \<open>MILESTONES\<close> is the list \<open>[49, 63]\<close>.
\<close>

theorem getHyperparams_defaults:
  "dom getHyperparams =
     {''LR'', ''MOMENTUM'', ''WEIGHT_DECAY'', ''NUM_EPOCHS'', ''MILESTONES'', ''BATCH_SIZE'',
      ''DEVICE'', ''GAMMA'', ''SEED'', ''LOG_FREQUENCY'', ''NUM_CLASSES''} \<and>
   card (dom getHyperparams) = 11 \<and>
   getHyperparams ''LR'' = Some (HInt 2) \<and>
   getHyperparams ''MOMENTUM'' = Some (HFloat 0.9) \<and>
   getHyperparams ''WEIGHT_DECAY'' = Some (HFloat 0.00001) \<and>
   getHyperparams ''NUM_EPOCHS'' = Some (HInt 70) \<and>
   getHyperparams ''MILESTONES'' = Some (HList [49, 63]) \<and>
   getHyperparams ''BATCH_SIZE'' = Some (HInt 128) \<and>
   getHyperparams ''DEVICE'' = Some (HStr ''cuda'') \<and>
   getHyperparams ''GAMMA'' = Some (HFloat 0.2) \<and>
   getHyperparams ''SEED'' = Some (HInt 66) \<and>
   getHyperparams ''LOG_FREQUENCY'' = Some (HInt 10) \<and>
   getHyperparams ''NUM_CLASSES'' = Some (HInt 100)"
  by (auto simp: getHyperparams_def)

section \<open>Results about \<open>L_G_dist_scalar\<close>\<close>

























section \<open>Results about \<open>L_G_dist\<close>\<close>













section \<open>Results about \<open>CosineNormalizationLayer.forward\<close>\<close>
















end
